theory Spec2Isabelle
  imports Main
begin

section \<open>The host value model\<close>

text \<open>
  The file \<^verbatim>\<open>src/type.c\<close> classifies R values. A value is reached through a pointer
  (\<^verbatim>\<open>SEXP\<close>) to a node whose header carries a storage tag and an object bit, and which
  may carry a class attribute. The node and its accessors belong to the host, whose
  headers are not part of the library; they are written here as the specification's
  section 6 describes the host value representation query. The storage tags are those
  of R's \<^verbatim>\<open>Rinternals.h\<close>; the code names eight of them and sends all the others
  to its \<^verbatim>\<open>default\<close> branch.
\<close>

datatype SEXPTYPE =
    NILSXP | SYMSXP | LISTSXP | CLOSXP | ENVSXP | PROMSXP | LANGSXP
  | SPECIALSXP | BUILTINSXP | CHARSXP | LGLSXP | INTSXP | REALSXP | CPLXSXP
  | STRSXP | DOTSXP | ANYSXP | VECSXP | EXPRSXP | BCODESXP | EXTPTRSXP
  | WEAKREFSXP | RAWSXP | S4SXP

text \<open>
  One cell of a vector's data area. A freshly allocated data area is not initialised;
  the only cells the file ever writes are those of logical vectors, which are C ints.
\<close>

datatype cell = Uninit | Lgl int

text \<open>
  The node itself: the storage tag, the object bit, the mark set by
  \<^verbatim>\<open>MARK_NOT_MUTABLE\<close>, the class attribute (empty when there is none) and the data
  area, whose length is the vector's length.
\<close>

record SEXPREC =
  sxptype :: SEXPTYPE
  obj :: bool
  not_mutable :: bool
  klass :: "string list"
  payload :: "cell list"

definition TYPEOF :: "SEXPREC \<Rightarrow> SEXPTYPE" where
  "TYPEOF x = sxptype x"

definition OBJECT :: "SEXPREC \<Rightarrow> bool" where
  "OBJECT x = obj x"

text \<open>
  Modelled from the spec: \<^verbatim>\<open>Rf_inherits\<close> is the host's and is missing from the
  sources. It is the predicate behind the specification's tabular-composite test: it
  answers false for a value whose object bit is clear, and otherwise looks the name up
  among the strings of the class attribute.
\<close>

definition Rf_inherits :: "SEXPREC \<Rightarrow> string \<Rightarrow> bool" where
  "Rf_inherits x name = (OBJECT x \<and> name \<in> set (klass x))"

section \<open>The kind taxonomy and the type resolver\<close>

datatype vctrs_type =
    vctrs_type_null
  | vctrs_type_logical
  | vctrs_type_integer
  | vctrs_type_double
  | vctrs_type_complex
  | vctrs_type_character
  | vctrs_type_raw
  | vctrs_type_list
  | vctrs_type_dataframe
  | vctrs_type_s3
  | vctrs_type_scalar

definition is_data_frame :: "SEXPREC \<Rightarrow> bool" where
  "is_data_frame x = Rf_inherits x ''data.frame''"

definition is_record :: "SEXPREC \<Rightarrow> bool" where
  "is_record x = (Rf_inherits x ''vctrs_rcrd'' \<or> Rf_inherits x ''POSIXlt'')"

definition vec_typeof_impl :: "SEXPREC \<Rightarrow> bool \<Rightarrow> vctrs_type" where
  "vec_typeof_impl x dispatch =
    (case TYPEOF x of
       NILSXP \<Rightarrow> vctrs_type_null
     | LGLSXP \<Rightarrow> if OBJECT x \<and> dispatch then vctrs_type_s3 else vctrs_type_logical
     | INTSXP \<Rightarrow> if OBJECT x \<and> dispatch then vctrs_type_s3 else vctrs_type_integer
     | REALSXP \<Rightarrow> if OBJECT x \<and> dispatch then vctrs_type_s3 else vctrs_type_double
     | CPLXSXP \<Rightarrow> if OBJECT x \<and> dispatch then vctrs_type_s3 else vctrs_type_complex
     | STRSXP \<Rightarrow> if OBJECT x \<and> dispatch then vctrs_type_s3 else vctrs_type_character
     | RAWSXP \<Rightarrow> if OBJECT x \<and> dispatch then vctrs_type_s3 else vctrs_type_raw
     | VECSXP \<Rightarrow>
         if \<not> OBJECT x then vctrs_type_list
         else if is_data_frame x then vctrs_type_dataframe
         else if dispatch then vctrs_type_s3
         else vctrs_type_scalar
     | _ \<Rightarrow> vctrs_type_scalar)"

definition vec_typeof :: "SEXPREC \<Rightarrow> vctrs_type" where
  "vec_typeof x = vec_typeof_impl x True"

definition vec_type_as_str :: "vctrs_type \<Rightarrow> string" where
  "vec_type_as_str t =
    (case t of
       vctrs_type_null \<Rightarrow> ''null''
     | vctrs_type_logical \<Rightarrow> ''logical''
     | vctrs_type_integer \<Rightarrow> ''integer''
     | vctrs_type_double \<Rightarrow> ''double''
     | vctrs_type_complex \<Rightarrow> ''complex''
     | vctrs_type_character \<Rightarrow> ''character''
     | vctrs_type_raw \<Rightarrow> ''raw''
     | vctrs_type_list \<Rightarrow> ''list''
     | vctrs_type_dataframe \<Rightarrow> ''dataframe''
     | vctrs_type_s3 \<Rightarrow> ''s3''
     | vctrs_type_scalar \<Rightarrow> ''scalar'')"

section \<open>The vector predicate\<close>

text \<open>
  \<^verbatim>\<open>vec_proxy\<close> is defined elsewhere in the library and ends in code supplied by
  the author of a class, so it is a parameter here: given the value and the state of
  the host it returns the proxy and the state it leaves behind. A call of
  \<^verbatim>\<open>vec_proxy\<close> that raises an R error unwinds past this file and gives the
  predicate no answer at all; what is stated below is about the calls that return.

  The C function calls itself, so each call takes a stack frame. The first argument
  is the number of frames still available; with none left there is no result. The
  result carries the answer, the values \<^verbatim>\<open>vec_proxy\<close> was called on, in order, and
  the state of the host. \<^verbatim>\<open>PROTECT\<close> and \<^verbatim>\<open>UNPROTECT\<close> are balanced and only
  guard the proxy against the collector; they are left out.
\<close>

type_synonym 'h proxy_fn = "SEXPREC \<Rightarrow> 'h \<Rightarrow> SEXPREC \<times> 'h"

fun vec_is_vector_rec ::
  "nat \<Rightarrow> 'h proxy_fn \<Rightarrow> SEXPREC \<Rightarrow> bool \<Rightarrow> 'h \<Rightarrow> (bool \<times> SEXPREC list \<times> 'h) option" where
  "vec_is_vector_rec 0 vec_proxy x dispatch h = None"
| "vec_is_vector_rec (Suc depth) vec_proxy x dispatch h =
    (case vec_typeof_impl x dispatch of
       vctrs_type_logical \<Rightarrow> Some (True, [], h)
     | vctrs_type_integer \<Rightarrow> Some (True, [], h)
     | vctrs_type_double \<Rightarrow> Some (True, [], h)
     | vctrs_type_complex \<Rightarrow> Some (True, [], h)
     | vctrs_type_character \<Rightarrow> Some (True, [], h)
     | vctrs_type_raw \<Rightarrow> Some (True, [], h)
     | vctrs_type_list \<Rightarrow> Some (True, [], h)
     | vctrs_type_dataframe \<Rightarrow> Some (True, [], h)
     | vctrs_type_s3 \<Rightarrow>
         (case vec_proxy x h of (proxy, h') \<Rightarrow>
           (case vec_is_vector_rec depth vec_proxy proxy False h' of
              None \<Rightarrow> None
            | Some (out, calls, h'') \<Rightarrow> Some (out, x # calls, h'')))
     | _ \<Rightarrow> Some (False, [], h))"

definition vec_is_vector ::
  "nat \<Rightarrow> 'h proxy_fn \<Rightarrow> SEXPREC \<Rightarrow> 'h \<Rightarrow> (bool \<times> SEXPREC list \<times> 'h) option" where
  "vec_is_vector depth vec_proxy x h = vec_is_vector_rec depth vec_proxy x True h"

section \<open>The shared constants\<close>

text \<open>
  The state of the process, as far as \<^verbatim>\<open>vctrs_init_types\<close> touches it: the host's
  heap of nodes, the host's list of preserved nodes, and the statics of this file. A
  node is named by the serial number of its allocation, so a new node never has the
  name of an older one; \<open>next_node\<close> is the next serial number. A static that holds
  \<^verbatim>\<open>NULL\<close> is \<open>None\<close>. The type of doubles is a parameter: the file only stores
  the host's \<^verbatim>\<open>NA_REAL\<close> and never computes with it.
\<close>

type_synonym addr = nat

record 'd Rcomplex =
  cplx_r :: 'd
  cplx_i :: 'd

record 'd process =
  heap :: "addr \<Rightarrow> SEXPREC option"
  next_node :: addr
  R_PreciousList :: "addr list"
  syms_vec_is_vector_dispatch :: "string option"
  fns_vec_is_vector_dispatch :: "addr option"
  vctrs_shared_empty_lgl :: "addr option"
  vctrs_shared_empty_int :: "addr option"
  vctrs_shared_empty_dbl :: "addr option"
  vctrs_shared_empty_cpl :: "addr option"
  vctrs_shared_empty_chr :: "addr option"
  vctrs_shared_empty_raw :: "addr option"
  vctrs_shared_empty_list :: "addr option"
  vctrs_shared_true :: "addr option"
  vctrs_shared_false :: "addr option"
  vctrs_shared_na_cpl :: "'d Rcomplex"

text \<open>
  Before initialisation the heap is empty and every static is \<^verbatim>\<open>NULL\<close>, as its
  initialiser says; the complex static is zero-initialised.
\<close>

definition process_start :: "'d \<Rightarrow> 'd process" where
  "process_start zero =
    \<lparr>heap = (\<lambda>a. None), next_node = 0, R_PreciousList = [],
     syms_vec_is_vector_dispatch = None, fns_vec_is_vector_dispatch = None,
     vctrs_shared_empty_lgl = None, vctrs_shared_empty_int = None,
     vctrs_shared_empty_dbl = None, vctrs_shared_empty_cpl = None,
     vctrs_shared_empty_chr = None, vctrs_shared_empty_raw = None,
     vctrs_shared_empty_list = None, vctrs_shared_true = None, vctrs_shared_false = None,
     vctrs_shared_na_cpl = \<lparr>cplx_r = zero, cplx_i = zero\<rparr>\<rparr>"

subsection \<open>The host's memory primitives\<close>

text \<open>
  Modelled from the spec: \<^verbatim>\<open>Rf_allocVector\<close>, \<^verbatim>\<open>R_PreserveObject\<close> and
  \<^verbatim>\<open>MARK_NOT_MUTABLE\<close> are the host's and are missing from the sources; section 6
  of the specification describes them as the allocation, keep-alive and immutability
  marking primitives.

  The collector frees nodes it finds unreachable. Which nodes those are is not known
  here, so the candidates are a parameter; a node on the list of preserved nodes is
  never freed.
\<close>

definition collect :: "(addr \<Rightarrow> bool) \<Rightarrow> 'd process \<Rightarrow> 'd process" where
  "collect garbage s =
    s\<lparr>heap := (\<lambda>a. if garbage a \<and> a \<notin> set (R_PreciousList s) then None else heap s a)\<rparr>"

text \<open>
  An allocation may run the collector first. The new node has no attributes, its
  object bit and its mark are clear, and its data area is not initialised.
\<close>

definition Rf_allocVector ::
  "(addr \<Rightarrow> bool) \<Rightarrow> SEXPTYPE \<Rightarrow> nat \<Rightarrow> 'd process \<Rightarrow> addr \<times> 'd process" where
  "Rf_allocVector garbage t n s =
    (let s = collect garbage s; a = next_node s in
      (a, s\<lparr>heap := (heap s)(a \<mapsto> \<lparr>sxptype = t, obj = False, not_mutable = False,
                                   klass = [], payload = replicate n Uninit\<rparr>),
             next_node := Suc a\<rparr>))"

definition R_PreserveObject :: "addr \<Rightarrow> 'd process \<Rightarrow> 'd process" where
  "R_PreserveObject a s = s\<lparr>R_PreciousList := a # R_PreciousList s\<rparr>"

definition MARK_NOT_MUTABLE :: "addr \<Rightarrow> 'd process \<Rightarrow> 'd process" where
  "MARK_NOT_MUTABLE a s =
    (case heap s a of
       None \<Rightarrow> s
     | Some x \<Rightarrow> s\<lparr>heap := (heap s)(a \<mapsto> x\<lparr>not_mutable := True\<rparr>)\<rparr>)"

text \<open>
  The assignment \<^verbatim>\<open>LOGICAL(x)[i] = v\<close> writes through a raw pointer and does not look
  at the mark. Outside the data area it is undefined in C; the model leaves the state
  as it is there, and the initialiser only writes cell 0 of vectors of length one.
\<close>

definition LOGICAL_assign :: "addr \<Rightarrow> nat \<Rightarrow> int \<Rightarrow> 'd process \<Rightarrow> 'd process" where
  "LOGICAL_assign a i v s =
    (case heap s a of
       None \<Rightarrow> s
     | Some x \<Rightarrow>
         if i < length (payload x)
         then s\<lparr>heap := (heap s)(a \<mapsto> x\<lparr>payload := (payload x)[i := Lgl v]\<rparr>)\<rparr>
         else s)"

text \<open>
  A symbol is modelled by its name, and an environment by what \<^verbatim>\<open>Rf_findVar\<close>
  finds in it for each name (the host's unbound marker is a node like any other).
\<close>

definition Rf_install :: "string \<Rightarrow> string" where
  "Rf_install name = name"

definition Rf_findVar :: "string \<Rightarrow> (string \<Rightarrow> addr) \<Rightarrow> addr" where
  "Rf_findVar symbol rho = rho symbol"

subsection \<open>The initialiser\<close>

text \<open>
  \<open>gc k\<close> is what the collector would free at the \<open>k\<close>-th allocation of the run,
  \<open>NA_REAL\<close> the host's missing double.
\<close>

definition vctrs_init_types ::
  "(nat \<Rightarrow> addr \<Rightarrow> bool) \<Rightarrow> 'd \<Rightarrow> (string \<Rightarrow> addr) \<Rightarrow> 'd process \<Rightarrow> 'd process" where
  "vctrs_init_types gc NA_REAL ns s =
    (let s = s\<lparr>syms_vec_is_vector_dispatch := Some (Rf_install ''vec_is_vector'')\<rparr>;
         s = s\<lparr>fns_vec_is_vector_dispatch :=
                 map_option (\<lambda>symbol. Rf_findVar symbol ns) (syms_vec_is_vector_dispatch s)\<rparr>;

         (a, s) = Rf_allocVector (gc 0) LGLSXP 0 s;
         s = s\<lparr>vctrs_shared_empty_lgl := Some a\<rparr>;
         s = R_PreserveObject a s;
         s = MARK_NOT_MUTABLE a s;

         (a, s) = Rf_allocVector (gc 1) INTSXP 0 s;
         s = s\<lparr>vctrs_shared_empty_int := Some a\<rparr>;
         s = R_PreserveObject a s;
         s = MARK_NOT_MUTABLE a s;

         (a, s) = Rf_allocVector (gc 2) REALSXP 0 s;
         s = s\<lparr>vctrs_shared_empty_dbl := Some a\<rparr>;
         s = R_PreserveObject a s;
         s = MARK_NOT_MUTABLE a s;

         (a, s) = Rf_allocVector (gc 3) CPLXSXP 0 s;
         s = s\<lparr>vctrs_shared_empty_cpl := Some a\<rparr>;
         s = R_PreserveObject a s;
         s = MARK_NOT_MUTABLE a s;

         (a, s) = Rf_allocVector (gc 4) STRSXP 0 s;
         s = s\<lparr>vctrs_shared_empty_chr := Some a\<rparr>;
         s = R_PreserveObject a s;
         s = MARK_NOT_MUTABLE a s;

         (a, s) = Rf_allocVector (gc 5) RAWSXP 0 s;
         s = s\<lparr>vctrs_shared_empty_raw := Some a\<rparr>;
         s = R_PreserveObject a s;
         s = MARK_NOT_MUTABLE a s;

         (a, s) = Rf_allocVector (gc 6) VECSXP 0 s;
         s = s\<lparr>vctrs_shared_empty_list := Some a\<rparr>;
         s = R_PreserveObject a s;
         s = MARK_NOT_MUTABLE a s;

         (a, s) = Rf_allocVector (gc 7) LGLSXP 1 s;
         s = s\<lparr>vctrs_shared_true := Some a\<rparr>;
         s = R_PreserveObject a s;
         s = MARK_NOT_MUTABLE a s;
         s = LOGICAL_assign a 0 1 s;

         (a, s) = Rf_allocVector (gc 8) LGLSXP 1 s;
         s = s\<lparr>vctrs_shared_false := Some a\<rparr>;
         s = R_PreserveObject a s;
         s = MARK_NOT_MUTABLE a s;
         s = LOGICAL_assign a 0 0 s;

         s = s\<lparr>vctrs_shared_na_cpl := (vctrs_shared_na_cpl s)\<lparr>cplx_i := NA_REAL\<rparr>\<rparr>;
         s = s\<lparr>vctrs_shared_na_cpl := (vctrs_shared_na_cpl s)\<lparr>cplx_r := NA_REAL\<rparr>\<rparr>
     in s)"

section \<open>Vocabulary of the specification\<close>

text \<open>
  The specification pairs each of the six primitive array representations with its
  kind (boolean array with logical, integer array with integer, floating-point array
  with double, complex array with complex, string array with character, byte array
  with raw). This table is written from those words, not from the resolver, and is
  what the resolver is compared with.
\<close>

fun primitive_array_kind :: "SEXPTYPE \<Rightarrow> vctrs_type option" where
  "primitive_array_kind LGLSXP = Some vctrs_type_logical"
| "primitive_array_kind INTSXP = Some vctrs_type_integer"
| "primitive_array_kind REALSXP = Some vctrs_type_double"
| "primitive_array_kind CPLXSXP = Some vctrs_type_complex"
| "primitive_array_kind STRSXP = Some vctrs_type_character"
| "primitive_array_kind RAWSXP = Some vctrs_type_raw"
| "primitive_array_kind _ = None"

text \<open>A character of a lowercase name: a letter from a to z, or a digit.\<close>

definition lower_or_digit :: "char \<Rightarrow> bool" where
  "lower_or_digit c =
    (let n = (of_char c :: nat) in (97 \<le> n \<and> n \<le> 122) \<or> (48 \<le> n \<and> n \<le> 57))"

text \<open>A proxy that returns the value it is given: the shortest proxy chain that loops.\<close>

definition proxy_self :: "'h proxy_fn" where
  "proxy_self x h = (x, h)"

text \<open>
  What the specification asks of a pool entry: the static points to a node that has
  been allocated (its serial number is below \<open>next_node\<close>) and not freed, of the
  given storage and data, with no attributes, marked not mutable and on the list of
  preserved nodes.
\<close>

definition shared_node :: "'d process \<Rightarrow> addr option \<Rightarrow> SEXPTYPE \<Rightarrow> cell list \<Rightarrow> bool" where
  "shared_node s g t cells =
    (case g of
       None \<Rightarrow> False
     | Some a \<Rightarrow>
         (case heap s a of
            None \<Rightarrow> False
          | Some x \<Rightarrow> sxptype x = t \<and> payload x = cells \<and> \<not> obj x \<and> klass x = []
                \<and> not_mutable x \<and> a \<in> set (R_PreciousList s) \<and> a < next_node s))"

text \<open>
  A node that has been allocated and not freed, is marked not mutable and is on the
  list of preserved nodes.
\<close>

definition kept :: "'d process \<Rightarrow> addr \<Rightarrow> SEXPREC \<Rightarrow> bool" where
  "kept s a x =
    (heap s a = Some x \<and> not_mutable x \<and> a \<in> set (R_PreciousList s) \<and> a < next_node s)"

text \<open>The nine handles of the pool, in the order of their allocation.\<close>

definition pool_handles :: "'d process \<Rightarrow> addr option list" where
  "pool_handles s =
    [vctrs_shared_empty_lgl s, vctrs_shared_empty_int s, vctrs_shared_empty_dbl s,
     vctrs_shared_empty_cpl s, vctrs_shared_empty_chr s, vctrs_shared_empty_raw s,
     vctrs_shared_empty_list s, vctrs_shared_true s, vctrs_shared_false s]"

text \<open>The pool as the specification describes it after initialisation.\<close>

definition constant_pool :: "'d \<Rightarrow> 'd process \<Rightarrow> bool" where
  "constant_pool na s =
    (shared_node s (vctrs_shared_empty_lgl s) LGLSXP []
     \<and> shared_node s (vctrs_shared_empty_int s) INTSXP []
     \<and> shared_node s (vctrs_shared_empty_dbl s) REALSXP []
     \<and> shared_node s (vctrs_shared_empty_cpl s) CPLXSXP []
     \<and> shared_node s (vctrs_shared_empty_chr s) STRSXP []
     \<and> shared_node s (vctrs_shared_empty_raw s) RAWSXP []
     \<and> shared_node s (vctrs_shared_empty_list s) VECSXP []
     \<and> shared_node s (vctrs_shared_true s) LGLSXP [Lgl 1]
     \<and> shared_node s (vctrs_shared_false s) LGLSXP [Lgl 0]
     \<and> distinct (pool_handles s)
     \<and> vctrs_shared_na_cpl s = \<lparr>cplx_r = na, cplx_i = na\<rparr>)"

text \<open>The nodes the nine handles point to, as a snapshot of the pool's contents.\<close>

definition pool_nodes :: "'d process \<Rightarrow> SEXPREC option list" where
  "pool_nodes s = map (\<lambda>g. case g of None \<Rightarrow> None | Some a \<Rightarrow> heap s a) (pool_handles s)"

text \<open>
  Modelled from the spec: the host runtime and the rest of the library are not in
  this file. Section 6 of the specification gives the contract of the host (a node
  registered as kept alive is never freed; a node marked not mutable is never changed
  in place, an attempt being rejected or redirected to a fresh copy), and section 4.4
  makes every consumer a reader. One step of the process after initialisation is
  therefore an allocation, a registration, a marking, a collection, or a change in
  place of a node that is not marked. None of them assigns a static of this file.
\<close>

inductive host_step :: "'d process \<Rightarrow> 'd process \<Rightarrow> bool" where
  allocate: "host_step s (snd (Rf_allocVector garbage t n s))"
| preserve: "host_step s (R_PreserveObject a s)"
| mark: "host_step s (MARK_NOT_MUTABLE a s)"
| reclaim: "host_step s (collect garbage s)"
| mutate: "heap s a = Some x \<Longrightarrow> \<not> not_mutable x
      \<Longrightarrow> host_step s (s\<lparr>heap := (heap s)(a \<mapsto> y)\<rparr>)"

section \<open>Properties of the resolver\<close>

lemma primitive_array_kind_cases:
  assumes "primitive_array_kind t = Some k"
  shows "(t = LGLSXP \<and> k = vctrs_type_logical) \<or> (t = INTSXP \<and> k = vctrs_type_integer)
       \<or> (t = REALSXP \<and> k = vctrs_type_double) \<or> (t = CPLXSXP \<and> k = vctrs_type_complex)
       \<or> (t = STRSXP \<and> k = vctrs_type_character) \<or> (t = RAWSXP \<and> k = vctrs_type_raw)"
  using assms by (cases t) simp_all

text \<open>
  Claim C1. A primitive array (logical, integer, double, complex, character or raw
  storage) whose object bit is set resolves to s3 when dispatch is on, and to the
  primitive kind of its storage when dispatch is off.
\<close>

theorem classed_primitive_resolves:
  assumes "primitive_array_kind (TYPEOF x) = Some k" and "OBJECT x"
  shows "vec_typeof_impl x True = vctrs_type_s3 \<and> vec_typeof_impl x False = k"
  using primitive_array_kind_cases [OF assms(1)] assms(2)
  by (auto simp add: vec_typeof_impl_def)

theorem classed_primitive_resolves_witness:
  "vec_typeof_impl \<lparr>sxptype = INTSXP, obj = True, not_mutable = False,
      klass = [''factor''], payload = []\<rparr> True = vctrs_type_s3
   \<and> vec_typeof_impl \<lparr>sxptype = INTSXP, obj = True, not_mutable = False,
      klass = [''factor''], payload = []\<rparr> False = vctrs_type_integer
   \<and> vec_typeof_impl \<lparr>sxptype = REALSXP, obj = True, not_mutable = False,
      klass = [''Date''], payload = []\<rparr> True = vctrs_type_s3
   \<and> vec_typeof_impl \<lparr>sxptype = REALSXP, obj = True, not_mutable = False,
      klass = [''Date''], payload = []\<rparr> False = vctrs_type_double"
  using classed_primitive_resolves [of "\<lparr>sxptype = INTSXP, obj = True, not_mutable = False,
      klass = [''factor''], payload = []\<rparr>" vctrs_type_integer]
    classed_primitive_resolves [of "\<lparr>sxptype = REALSXP, obj = True, not_mutable = False,
      klass = [''Date''], payload = []\<rparr>" vctrs_type_double]
  by (simp add: TYPEOF_def OBJECT_def)

text \<open>
  Claim C7. A primitive array whose object bit is clear resolves to the primitive kind
  of its storage whatever the dispatch flag, so both flags give the same kind.
\<close>

theorem unclassed_primitive_resolves:
  assumes "primitive_array_kind (TYPEOF x) = Some k" and "\<not> OBJECT x"
  shows "vec_typeof_impl x True = vec_typeof_impl x False \<and> vec_typeof_impl x False = k"
  using primitive_array_kind_cases [OF assms(1)] assms(2)
  by (auto simp add: vec_typeof_impl_def)

theorem unclassed_primitive_resolves_witness:
  "vec_typeof_impl \<lparr>sxptype = LGLSXP, obj = False, not_mutable = False,
      klass = [], payload = []\<rparr> True
    = vec_typeof_impl \<lparr>sxptype = LGLSXP, obj = False, not_mutable = False,
      klass = [], payload = []\<rparr> False
   \<and> vec_typeof_impl \<lparr>sxptype = LGLSXP, obj = False, not_mutable = False,
      klass = [], payload = []\<rparr> False = vctrs_type_logical"
  using unclassed_primitive_resolves [of "\<lparr>sxptype = LGLSXP, obj = False,
      not_mutable = False, klass = [], payload = []\<rparr>" vctrs_type_logical]
  by (simp add: TYPEOF_def OBJECT_def)

text \<open>
  Claim C2. A generic container (list storage) resolves to list when its object bit is
  clear; to dataframe when the bit is set and it inherits from data.frame, whatever
  the dispatch flag; and otherwise, the bit being set, to s3 when dispatch is on and to
  scalar when dispatch is off.
\<close>

theorem generic_container_resolves:
  assumes "TYPEOF x = VECSXP"
  shows "(\<not> OBJECT x \<longrightarrow> vec_typeof_impl x dispatch = vctrs_type_list)
       \<and> (OBJECT x \<and> is_data_frame x \<longrightarrow> vec_typeof_impl x dispatch = vctrs_type_dataframe)
       \<and> (OBJECT x \<and> \<not> is_data_frame x \<longrightarrow>
            vec_typeof_impl x True = vctrs_type_s3 \<and> vec_typeof_impl x False = vctrs_type_scalar)"
  using assms by (simp add: vec_typeof_impl_def)

theorem generic_container_resolves_witness:
  "vec_typeof_impl \<lparr>sxptype = VECSXP, obj = False, not_mutable = False,
      klass = [], payload = []\<rparr> True = vctrs_type_list
   \<and> vec_typeof_impl \<lparr>sxptype = VECSXP, obj = False, not_mutable = False,
      klass = [], payload = []\<rparr> False = vctrs_type_list
   \<and> vec_typeof_impl \<lparr>sxptype = VECSXP, obj = True, not_mutable = False,
      klass = [''tbl_df'', ''tbl'', ''data.frame''], payload = []\<rparr> True = vctrs_type_dataframe
   \<and> vec_typeof_impl \<lparr>sxptype = VECSXP, obj = True, not_mutable = False,
      klass = [''tbl_df'', ''tbl'', ''data.frame''], payload = []\<rparr> False = vctrs_type_dataframe
   \<and> vec_typeof_impl \<lparr>sxptype = VECSXP, obj = True, not_mutable = False,
      klass = [''lm''], payload = []\<rparr> True = vctrs_type_s3
   \<and> vec_typeof_impl \<lparr>sxptype = VECSXP, obj = True, not_mutable = False,
      klass = [''lm''], payload = []\<rparr> False = vctrs_type_scalar"
  using generic_container_resolves [of "\<lparr>sxptype = VECSXP, obj = False, not_mutable = False,
      klass = [], payload = []\<rparr>" True]
    generic_container_resolves [of "\<lparr>sxptype = VECSXP, obj = False, not_mutable = False,
      klass = [], payload = []\<rparr>" False]
    generic_container_resolves [of "\<lparr>sxptype = VECSXP, obj = True, not_mutable = False,
      klass = [''tbl_df'', ''tbl'', ''data.frame''], payload = []\<rparr>" True]
    generic_container_resolves [of "\<lparr>sxptype = VECSXP, obj = True, not_mutable = False,
      klass = [''tbl_df'', ''tbl'', ''data.frame''], payload = []\<rparr>" False]
    generic_container_resolves [of "\<lparr>sxptype = VECSXP, obj = True, not_mutable = False,
      klass = [''lm''], payload = []\<rparr>" True]
  by (simp add: TYPEOF_def OBJECT_def is_data_frame_def Rf_inherits_def)

text \<open>
  Claim C10. A generic container that inherits from vctrs_rcrd or POSIXlt but not from
  data.frame resolves to s3 when dispatch is on and to scalar when dispatch is off,
  never to dataframe. The resolver does not consult \<open>is_record\<close>: a value resolves to
  dataframe exactly when it has list storage and inherits from data.frame.
\<close>

theorem record_container_resolves:
  assumes "TYPEOF x = VECSXP" and "is_record x" and "\<not> is_data_frame x"
  shows "vec_typeof_impl x True = vctrs_type_s3
       \<and> vec_typeof_impl x False = vctrs_type_scalar
       \<and> vec_typeof_impl x dispatch \<noteq> vctrs_type_dataframe
       \<and> (vec_typeof_impl y d = vctrs_type_dataframe) = (TYPEOF y = VECSXP \<and> is_data_frame y)"
proof -
  from assms(2) have o: "OBJECT x" by (auto simp add: is_record_def Rf_inherits_def)
  have "(vec_typeof_impl y d = vctrs_type_dataframe) = (TYPEOF y = VECSXP \<and> is_data_frame y)"
    by (cases "TYPEOF y") (auto simp add: vec_typeof_impl_def is_data_frame_def Rf_inherits_def)
  with assms(1,3) o show ?thesis by (cases dispatch) (simp_all add: vec_typeof_impl_def)
qed

theorem record_container_resolves_witness:
  "vec_typeof_impl \<lparr>sxptype = VECSXP, obj = True, not_mutable = False,
      klass = [''vctrs_rcrd'', ''vctrs_vctr''], payload = []\<rparr> True = vctrs_type_s3
   \<and> vec_typeof_impl \<lparr>sxptype = VECSXP, obj = True, not_mutable = False,
      klass = [''vctrs_rcrd'', ''vctrs_vctr''], payload = []\<rparr> False = vctrs_type_scalar
   \<and> vec_typeof_impl \<lparr>sxptype = VECSXP, obj = True, not_mutable = False,
      klass = [''POSIXlt'', ''POSIXt''], payload = []\<rparr> True = vctrs_type_s3
   \<and> vec_typeof_impl \<lparr>sxptype = VECSXP, obj = True, not_mutable = False,
      klass = [''POSIXlt'', ''POSIXt''], payload = []\<rparr> False = vctrs_type_scalar"
  using record_container_resolves [of "\<lparr>sxptype = VECSXP, obj = True, not_mutable = False,
      klass = [''vctrs_rcrd'', ''vctrs_vctr''], payload = []\<rparr>" True]
    record_container_resolves [of "\<lparr>sxptype = VECSXP, obj = True, not_mutable = False,
      klass = [''POSIXlt'', ''POSIXt''], payload = []\<rparr>" True]
  by (simp add: TYPEOF_def OBJECT_def is_data_frame_def is_record_def Rf_inherits_def)

section \<open>Properties of the kind names\<close>

lemma vctrs_type_UNIV:
  "(UNIV :: vctrs_type set) = {vctrs_type_null, vctrs_type_logical, vctrs_type_integer,
     vctrs_type_double, vctrs_type_complex, vctrs_type_character, vctrs_type_raw,
     vctrs_type_list, vctrs_type_dataframe, vctrs_type_s3, vctrs_type_scalar}"
proof -
  have "k \<in> {vctrs_type_null, vctrs_type_logical, vctrs_type_integer,
     vctrs_type_double, vctrs_type_complex, vctrs_type_character, vctrs_type_raw,
     vctrs_type_list, vctrs_type_dataframe, vctrs_type_s3, vctrs_type_scalar}" for k
    by (cases k) simp_all
  then show ?thesis by blast
qed

lemma vec_type_as_str_inj: "inj vec_type_as_str"
proof (rule injI)
  fix a b assume "vec_type_as_str a = vec_type_as_str b"
  then show "a = b"
    by (cases a; cases b) (simp_all add: vec_type_as_str_def)
qed

lemma names_lower: "vec_type_as_str k \<noteq> [] \<and> list_all lower_or_digit (vec_type_as_str k)"
  by (cases k) (simp_all add: vec_type_as_str_def lower_or_digit_def)

text \<open>
  Claim C8. \<open>vec_type_as_str\<close> gives every kind a name that is not empty and is made
  of lowercase letters and digits; the eleven names are null, logical, integer, double,
  complex, character, raw, list, dataframe, s3 and scalar; and two different kinds
  never have the same name.
\<close>

theorem kind_names:
  "(\<forall>k. vec_type_as_str k \<noteq> [] \<and> list_all lower_or_digit (vec_type_as_str k))
   \<and> inj vec_type_as_str
   \<and> map vec_type_as_str
        [vctrs_type_null, vctrs_type_logical, vctrs_type_integer, vctrs_type_double,
         vctrs_type_complex, vctrs_type_character, vctrs_type_raw, vctrs_type_list,
         vctrs_type_dataframe, vctrs_type_s3, vctrs_type_scalar]
      = [''null'', ''logical'', ''integer'', ''double'', ''complex'', ''character'',
         ''raw'', ''list'', ''dataframe'', ''s3'', ''scalar'']
   \<and> range vec_type_as_str
      = {''null'', ''logical'', ''integer'', ''double'', ''complex'', ''character'',
         ''raw'', ''list'', ''dataframe'', ''s3'', ''scalar''}
   \<and> card (range vec_type_as_str) = 11"
proof (intro conjI allI)
  show "vec_type_as_str k \<noteq> []" for k using names_lower [of k] by simp
  show "list_all lower_or_digit (vec_type_as_str k)" for k using names_lower [of k] by simp
  show "inj vec_type_as_str" by (rule vec_type_as_str_inj)
  show "range vec_type_as_str
      = {''null'', ''logical'', ''integer'', ''double'', ''complex'', ''character'',
         ''raw'', ''list'', ''dataframe'', ''s3'', ''scalar''}"
    unfolding vctrs_type_UNIV by (simp add: vec_type_as_str_def)
  have "card (range vec_type_as_str) = card (UNIV :: vctrs_type set)"
    by (rule card_image [OF vec_type_as_str_inj])
  also have "\<dots> = 11" unfolding vctrs_type_UNIV by simp
  finally show "card (range vec_type_as_str) = 11" .
qed (simp add: vec_type_as_str_def)

section \<open>Properties of the vector predicate\<close>

lemma no_s3_without_dispatch: "vec_typeof_impl w False \<noteq> vctrs_type_s3"
  by (cases "TYPEOF w") (simp_all add: vec_typeof_impl_def)

lemma rec_no_dispatch:
  "vec_is_vector_rec (Suc n) vec_proxy w False h =
     Some (vec_typeof_impl w False \<notin> {vctrs_type_null, vctrs_type_scalar}, [], h)"
  using no_s3_without_dispatch [of w]
  by (cases "vec_typeof_impl w False") simp_all

lemma rec_s3:
  assumes "vec_typeof_impl x dispatch = vctrs_type_s3"
  shows "vec_is_vector_rec (Suc (Suc n)) vec_proxy x dispatch h =
     Some (vec_typeof_impl (fst (vec_proxy x h)) False \<notin> {vctrs_type_null, vctrs_type_scalar},
           [x], snd (vec_proxy x h))"
proof -
  obtain p h' where ph: "vec_proxy x h = (p, h')" by (cases "vec_proxy x h")
  have "vec_is_vector_rec (Suc (Suc n)) vec_proxy x dispatch h =
      (case vec_is_vector_rec (Suc n) vec_proxy p False h' of
         None \<Rightarrow> None
       | Some (out, calls, h'') \<Rightarrow> Some (out, x # calls, h''))"
    by (subst vec_is_vector_rec.simps(2)) (simp add: assms ph del: vec_is_vector_rec.simps)
  then show ?thesis
    by (simp add: rec_no_dispatch ph del: vec_is_vector_rec.simps)
qed

lemma rec_not_s3:
  assumes "vec_typeof_impl x dispatch \<noteq> vctrs_type_s3"
  shows "vec_is_vector_rec (Suc n) vec_proxy x dispatch h =
     Some (vec_typeof_impl x dispatch \<notin> {vctrs_type_null, vctrs_type_scalar}, [], h)"
  using assms by (cases "vec_typeof_impl x dispatch") simp_all

text \<open>
  Claim C3. When the value resolves, with dispatch on, to logical, integer, double,
  complex, character, raw, list or dataframe, \<open>vec_is_vector\<close> answers true; when it
  resolves to null or scalar, it answers false. In both cases \<^verbatim>\<open>vec_proxy\<close> is not
  called: the list of calls is empty and the host state is the one given.
\<close>

theorem vector_kinds_need_no_proxy:
  "(vec_typeof_impl v True \<in> {vctrs_type_logical, vctrs_type_integer, vctrs_type_double,
        vctrs_type_complex, vctrs_type_character, vctrs_type_raw, vctrs_type_list,
        vctrs_type_dataframe}
      \<longrightarrow> vec_is_vector (Suc n) vec_proxy v h = Some (True, [], h))
   \<and> (vec_typeof_impl v True \<in> {vctrs_type_null, vctrs_type_scalar}
      \<longrightarrow> vec_is_vector (Suc n) vec_proxy v h = Some (False, [], h))"
  by (auto simp add: vec_is_vector_def)

theorem vector_kinds_need_no_proxy_witness:
  "vec_is_vector 1 proxy_self \<lparr>sxptype = LGLSXP, obj = False, not_mutable = False,
      klass = [], payload = []\<rparr> () = Some (True, [], ())
   \<and> vec_is_vector 1 proxy_self \<lparr>sxptype = VECSXP, obj = True, not_mutable = False,
      klass = [''data.frame''], payload = []\<rparr> () = Some (True, [], ())
   \<and> vec_is_vector 1 proxy_self \<lparr>sxptype = NILSXP, obj = False, not_mutable = False,
      klass = [], payload = []\<rparr> () = Some (False, [], ())
   \<and> vec_is_vector 1 proxy_self \<lparr>sxptype = CLOSXP, obj = False, not_mutable = False,
      klass = [], payload = []\<rparr> () = Some (False, [], ())"
  using vector_kinds_need_no_proxy [of "\<lparr>sxptype = LGLSXP, obj = False, not_mutable = False,
      klass = [], payload = []\<rparr>" 0 proxy_self "()"]
    vector_kinds_need_no_proxy [of "\<lparr>sxptype = VECSXP, obj = True, not_mutable = False,
      klass = [''data.frame''], payload = []\<rparr>" 0 proxy_self "()"]
    vector_kinds_need_no_proxy [of "\<lparr>sxptype = NILSXP, obj = False, not_mutable = False,
      klass = [], payload = []\<rparr>" 0 proxy_self "()"]
    vector_kinds_need_no_proxy [of "\<lparr>sxptype = CLOSXP, obj = False, not_mutable = False,
      klass = [], payload = []\<rparr>" 0 proxy_self "()"]
  by (simp add: vec_typeof_impl_def TYPEOF_def OBJECT_def is_data_frame_def Rf_inherits_def)

text \<open>
  Claim C4. When the value resolves to s3 with dispatch on, \<open>vec_is_vector\<close> calls
  \<^verbatim>\<open>vec_proxy\<close> on the value, exactly once, and its answer is the answer of
  \<open>vec_is_vector_rec\<close> on the proxy with dispatch off, which itself calls
  \<^verbatim>\<open>vec_proxy\<close> no more. This holds for every proxy function.
\<close>

theorem s3_unwraps_once:
  assumes "vec_typeof_impl v True = vctrs_type_s3" and "vec_proxy v h = (p, h')"
  shows "\<exists>out. vec_is_vector_rec (Suc n) vec_proxy p False h' = Some (out, [], h')
             \<and> vec_is_vector (Suc (Suc n)) vec_proxy v h = Some (out, [v], h')"
  unfolding vec_is_vector_def rec_s3 [OF assms(1)] rec_no_dispatch assms(2) by simp

theorem s3_unwraps_once_witness:
  "vec_is_vector 2
      (\<lambda>x h. (\<lparr>sxptype = INTSXP, obj = False, not_mutable = False, klass = [],
                 payload = []\<rparr>, h))
      \<lparr>sxptype = INTSXP, obj = True, not_mutable = False, klass = [''factor''],
        payload = []\<rparr> ()
    = Some (True, [\<lparr>sxptype = INTSXP, obj = True, not_mutable = False, klass = [''factor''],
        payload = []\<rparr>], ())
   \<and> vec_is_vector 2
      (\<lambda>x h. (\<lparr>sxptype = CLOSXP, obj = False, not_mutable = False, klass = [],
                 payload = []\<rparr>, h))
      \<lparr>sxptype = INTSXP, obj = True, not_mutable = False, klass = [''factor''],
        payload = []\<rparr> ()
    = Some (False, [\<lparr>sxptype = INTSXP, obj = True, not_mutable = False, klass = [''factor''],
        payload = []\<rparr>], ())"
  using s3_unwraps_once [of "\<lparr>sxptype = INTSXP, obj = True, not_mutable = False,
        klass = [''factor''], payload = []\<rparr>"
      "\<lambda>x h. (\<lparr>sxptype = INTSXP, obj = False, not_mutable = False, klass = [],
                 payload = []\<rparr>, h)" "()"
      "\<lparr>sxptype = INTSXP, obj = False, not_mutable = False, klass = [], payload = []\<rparr>"
      "()" 0]
    s3_unwraps_once [of "\<lparr>sxptype = INTSXP, obj = True, not_mutable = False,
        klass = [''factor''], payload = []\<rparr>"
      "\<lambda>x h. (\<lparr>sxptype = CLOSXP, obj = False, not_mutable = False, klass = [],
                 payload = []\<rparr>, h)" "()"
      "\<lparr>sxptype = CLOSXP, obj = False, not_mutable = False, klass = [], payload = []\<rparr>"
      "()" 0]
  by (simp add: vec_is_vector_def vec_typeof_impl_def TYPEOF_def OBJECT_def numeral_2_eq_2)

text \<open>
  Claim C5. With dispatch off the resolver never answers s3, so a call of
  \<open>vec_is_vector_rec\<close> with dispatch off returns from its own frame without calling
  \<^verbatim>\<open>vec_proxy\<close>. Hence, whatever the proxy function does, two stack frames are
  enough for \<open>vec_is_vector_rec\<close> to return, it calls \<^verbatim>\<open>vec_proxy\<close> at most once,
  and more frames change nothing.
\<close>

theorem depth_bounded:
  "vec_typeof_impl w False \<noteq> vctrs_type_s3
   \<and> (\<exists>out. vec_is_vector_rec 1 vec_proxy w False h = Some (out, [], h))
   \<and> (\<exists>out calls h'. vec_is_vector_rec 2 vec_proxy x dispatch h = Some (out, calls, h')
         \<and> length calls \<le> 1)
   \<and> vec_is_vector_rec (2 + n) vec_proxy x dispatch h
      = vec_is_vector_rec 2 vec_proxy x dispatch h"
proof (intro conjI)
  show "vec_typeof_impl w False \<noteq> vctrs_type_s3" by (rule no_s3_without_dispatch)
  show "\<exists>out. vec_is_vector_rec 1 vec_proxy w False h = Some (out, [], h)"
    unfolding One_nat_def rec_no_dispatch by simp
  show "\<exists>out calls h'. vec_is_vector_rec 2 vec_proxy x dispatch h = Some (out, calls, h')
         \<and> length calls \<le> 1"
  proof (cases "vec_typeof_impl x dispatch = vctrs_type_s3")
    case True
    show ?thesis unfolding numeral_2_eq_2 rec_s3 [OF True] by simp
  next
    case False
    show ?thesis unfolding numeral_2_eq_2 rec_not_s3 [OF False] by simp
  qed
  show "vec_is_vector_rec (2 + n) vec_proxy x dispatch h
      = vec_is_vector_rec 2 vec_proxy x dispatch h"
  proof (cases "vec_typeof_impl x dispatch = vctrs_type_s3")
    case True
    show ?thesis unfolding numeral_2_eq_2 add_Suc add_0 rec_s3 [OF True] ..
  next
    case False
    show ?thesis unfolding numeral_2_eq_2 add_Suc add_0 rec_not_s3 [OF False] ..
  qed
qed

text \<open>
  The specification also describes a proxy chain that never ends: a proxy result that
  resolves to s3 with dispatch off. By \<open>no_s3_without_dispatch\<close> no value does, so
  that situation has no instance in this code. What happens when the proxy result is
  itself classed (the value itself, or the next member of a cycle of custom types) is
  this: the chain is not followed. There is one call of \<^verbatim>\<open>vec_proxy\<close>, one
  recursive call, and the answer is true exactly when the proxy result is a primitive
  array or a data frame.
\<close>

lemma proxy_loop_stops:
  assumes "vec_typeof_impl v True = vctrs_type_s3" and "vec_proxy v h = (w, h')" and "OBJECT w"
  shows "vec_typeof_impl w False \<noteq> vctrs_type_s3
       \<and> vec_is_vector_rec (Suc (Suc n)) vec_proxy v True h =
     Some (primitive_array_kind (TYPEOF w) \<noteq> None \<or> (TYPEOF w = VECSXP \<and> is_data_frame w),
           [v], h')"
  unfolding rec_s3 [OF assms(1)] assms(2) using assms(3)
  by (cases "TYPEOF w") (simp_all add: vec_typeof_impl_def)

lemma proxy_loop_stops_example:
  "vec_is_vector_rec 2 proxy_self
      \<lparr>sxptype = INTSXP, obj = True, not_mutable = False, klass = [''myclass''],
        payload = []\<rparr> True ()
    = Some (True, [\<lparr>sxptype = INTSXP, obj = True, not_mutable = False,
        klass = [''myclass''], payload = []\<rparr>], ())
   \<and> vec_is_vector_rec 2
      (\<lambda>x h. (if klass x = [''ping'']
               then \<lparr>sxptype = VECSXP, obj = True, not_mutable = False, klass = [''pong''],
                      payload = []\<rparr>
               else \<lparr>sxptype = VECSXP, obj = True, not_mutable = False, klass = [''ping''],
                      payload = []\<rparr>, h))
      \<lparr>sxptype = VECSXP, obj = True, not_mutable = False, klass = [''ping''],
        payload = []\<rparr> True ()
    = Some (False, [\<lparr>sxptype = VECSXP, obj = True, not_mutable = False,
        klass = [''ping''], payload = []\<rparr>], ())"
  using proxy_loop_stops [of "\<lparr>sxptype = INTSXP, obj = True, not_mutable = False,
        klass = [''myclass''], payload = []\<rparr>" proxy_self "()"
      "\<lparr>sxptype = INTSXP, obj = True, not_mutable = False, klass = [''myclass''],
        payload = []\<rparr>" "()" 0]
    proxy_loop_stops [of "\<lparr>sxptype = VECSXP, obj = True, not_mutable = False,
        klass = [''ping''], payload = []\<rparr>"
      "\<lambda>x h. (if klass x = [''ping'']
               then \<lparr>sxptype = VECSXP, obj = True, not_mutable = False, klass = [''pong''],
                      payload = []\<rparr>
               else \<lparr>sxptype = VECSXP, obj = True, not_mutable = False, klass = [''ping''],
                      payload = []\<rparr>, h)" "()"
      "\<lparr>sxptype = VECSXP, obj = True, not_mutable = False, klass = [''pong''],
        payload = []\<rparr>" "()" 0]
  by (simp add: vec_typeof_impl_def TYPEOF_def OBJECT_def proxy_self_def numeral_2_eq_2
      is_data_frame_def Rf_inherits_def)

section \<open>Properties of the shared constants\<close>

subsection \<open>What each primitive does to each part of the state\<close>

lemma alloc_proj:
  "fst (Rf_allocVector g t n s) = next_node s"
  "next_node (snd (Rf_allocVector g t n s)) = Suc (next_node s)"
  "R_PreciousList (snd (Rf_allocVector g t n s)) = R_PreciousList s"
  "heap (snd (Rf_allocVector g t n s)) =
     (heap (collect g s))(next_node s \<mapsto> \<lparr>sxptype = t, obj = False, not_mutable = False,
                                   klass = [], payload = replicate n Uninit\<rparr>)"
  "syms_vec_is_vector_dispatch (snd (Rf_allocVector g t n s)) = syms_vec_is_vector_dispatch s"
  "fns_vec_is_vector_dispatch (snd (Rf_allocVector g t n s)) = fns_vec_is_vector_dispatch s"
  "vctrs_shared_empty_lgl (snd (Rf_allocVector g t n s)) = vctrs_shared_empty_lgl s"
  "vctrs_shared_empty_int (snd (Rf_allocVector g t n s)) = vctrs_shared_empty_int s"
  "vctrs_shared_empty_dbl (snd (Rf_allocVector g t n s)) = vctrs_shared_empty_dbl s"
  "vctrs_shared_empty_cpl (snd (Rf_allocVector g t n s)) = vctrs_shared_empty_cpl s"
  "vctrs_shared_empty_chr (snd (Rf_allocVector g t n s)) = vctrs_shared_empty_chr s"
  "vctrs_shared_empty_raw (snd (Rf_allocVector g t n s)) = vctrs_shared_empty_raw s"
  "vctrs_shared_empty_list (snd (Rf_allocVector g t n s)) = vctrs_shared_empty_list s"
  "vctrs_shared_true (snd (Rf_allocVector g t n s)) = vctrs_shared_true s"
  "vctrs_shared_false (snd (Rf_allocVector g t n s)) = vctrs_shared_false s"
  "vctrs_shared_na_cpl (snd (Rf_allocVector g t n s)) = vctrs_shared_na_cpl s"
  by (simp_all add: Rf_allocVector_def collect_def Let_def)

lemma collect_heap:
  "heap (collect g s) a = (if g a \<and> a \<notin> set (R_PreciousList s) then None else heap s a)"
  by (simp add: collect_def)

lemma preserve_proj:
  "next_node (R_PreserveObject a s) = next_node s"
  "R_PreciousList (R_PreserveObject a s) = a # R_PreciousList s"
  "heap (R_PreserveObject a s) = heap s"
  "syms_vec_is_vector_dispatch (R_PreserveObject a s) = syms_vec_is_vector_dispatch s"
  "fns_vec_is_vector_dispatch (R_PreserveObject a s) = fns_vec_is_vector_dispatch s"
  "vctrs_shared_empty_lgl (R_PreserveObject a s) = vctrs_shared_empty_lgl s"
  "vctrs_shared_empty_int (R_PreserveObject a s) = vctrs_shared_empty_int s"
  "vctrs_shared_empty_dbl (R_PreserveObject a s) = vctrs_shared_empty_dbl s"
  "vctrs_shared_empty_cpl (R_PreserveObject a s) = vctrs_shared_empty_cpl s"
  "vctrs_shared_empty_chr (R_PreserveObject a s) = vctrs_shared_empty_chr s"
  "vctrs_shared_empty_raw (R_PreserveObject a s) = vctrs_shared_empty_raw s"
  "vctrs_shared_empty_list (R_PreserveObject a s) = vctrs_shared_empty_list s"
  "vctrs_shared_true (R_PreserveObject a s) = vctrs_shared_true s"
  "vctrs_shared_false (R_PreserveObject a s) = vctrs_shared_false s"
  "vctrs_shared_na_cpl (R_PreserveObject a s) = vctrs_shared_na_cpl s"
  by (simp_all add: R_PreserveObject_def)

lemma mark_proj:
  "next_node (MARK_NOT_MUTABLE a s) = next_node s"
  "R_PreciousList (MARK_NOT_MUTABLE a s) = R_PreciousList s"
  "heap (MARK_NOT_MUTABLE a s) =
     (heap s)(a := map_option (\<lambda>x. x\<lparr>not_mutable := True\<rparr>) (heap s a))"
  "syms_vec_is_vector_dispatch (MARK_NOT_MUTABLE a s) = syms_vec_is_vector_dispatch s"
  "fns_vec_is_vector_dispatch (MARK_NOT_MUTABLE a s) = fns_vec_is_vector_dispatch s"
  "vctrs_shared_empty_lgl (MARK_NOT_MUTABLE a s) = vctrs_shared_empty_lgl s"
  "vctrs_shared_empty_int (MARK_NOT_MUTABLE a s) = vctrs_shared_empty_int s"
  "vctrs_shared_empty_dbl (MARK_NOT_MUTABLE a s) = vctrs_shared_empty_dbl s"
  "vctrs_shared_empty_cpl (MARK_NOT_MUTABLE a s) = vctrs_shared_empty_cpl s"
  "vctrs_shared_empty_chr (MARK_NOT_MUTABLE a s) = vctrs_shared_empty_chr s"
  "vctrs_shared_empty_raw (MARK_NOT_MUTABLE a s) = vctrs_shared_empty_raw s"
  "vctrs_shared_empty_list (MARK_NOT_MUTABLE a s) = vctrs_shared_empty_list s"
  "vctrs_shared_true (MARK_NOT_MUTABLE a s) = vctrs_shared_true s"
  "vctrs_shared_false (MARK_NOT_MUTABLE a s) = vctrs_shared_false s"
  "vctrs_shared_na_cpl (MARK_NOT_MUTABLE a s) = vctrs_shared_na_cpl s"
  by (auto simp add: MARK_NOT_MUTABLE_def split: option.splits)

lemma assign_proj:
  "next_node (LOGICAL_assign a i v s) = next_node s"
  "R_PreciousList (LOGICAL_assign a i v s) = R_PreciousList s"
  "heap (LOGICAL_assign a i v s) =
     (heap s)(a := map_option
        (\<lambda>x. if i < length (payload x) then x\<lparr>payload := (payload x)[i := Lgl v]\<rparr> else x)
        (heap s a))"
  "syms_vec_is_vector_dispatch (LOGICAL_assign a i v s) = syms_vec_is_vector_dispatch s"
  "fns_vec_is_vector_dispatch (LOGICAL_assign a i v s) = fns_vec_is_vector_dispatch s"
  "vctrs_shared_empty_lgl (LOGICAL_assign a i v s) = vctrs_shared_empty_lgl s"
  "vctrs_shared_empty_int (LOGICAL_assign a i v s) = vctrs_shared_empty_int s"
  "vctrs_shared_empty_dbl (LOGICAL_assign a i v s) = vctrs_shared_empty_dbl s"
  "vctrs_shared_empty_cpl (LOGICAL_assign a i v s) = vctrs_shared_empty_cpl s"
  "vctrs_shared_empty_chr (LOGICAL_assign a i v s) = vctrs_shared_empty_chr s"
  "vctrs_shared_empty_raw (LOGICAL_assign a i v s) = vctrs_shared_empty_raw s"
  "vctrs_shared_empty_list (LOGICAL_assign a i v s) = vctrs_shared_empty_list s"
  "vctrs_shared_true (LOGICAL_assign a i v s) = vctrs_shared_true s"
  "vctrs_shared_false (LOGICAL_assign a i v s) = vctrs_shared_false s"
  "vctrs_shared_na_cpl (LOGICAL_assign a i v s) = vctrs_shared_na_cpl s"
  by (auto simp add: LOGICAL_assign_def split: option.splits)

lemmas proj = alloc_proj preserve_proj mark_proj assign_proj collect_heap

lemma init_handles: "pool_handles (vctrs_init_types gc na ns s) =
   map Some [next_node s, next_node s + 1, next_node s + 2, next_node s + 3, next_node s + 4,
    next_node s + 5, next_node s + 6, next_node s + 7, next_node s + 8]"
  by (simp add: pool_handles_def vctrs_init_types_def Let_def split_beta proj)

subsection \<open>Steps of the host keep preserved, marked nodes\<close>

lemma shared_node_kept:
  "shared_node s g t cells =
     (\<exists>a x. g = Some a \<and> kept s a x \<and> sxptype x = t \<and> payload x = cells
        \<and> \<not> obj x \<and> klass x = [])"
  by (auto simp add: shared_node_def kept_def split: option.splits)

lemma host_step_statics:
  assumes "host_step s s'"
  shows "pool_handles s' = pool_handles s \<and> vctrs_shared_na_cpl s' = vctrs_shared_na_cpl s"
  using assms by cases (simp_all add: pool_handles_def proj collect_def)

lemma host_step_kept:
  assumes "host_step s s'" and "kept s a x"
  shows "kept s' a x"
  using assms by cases (auto simp add: kept_def proj collect_def)

lemma host_steps_statics:
  assumes "host_step\<^sup>*\<^sup>* s s'"
  shows "pool_handles s' = pool_handles s \<and> vctrs_shared_na_cpl s' = vctrs_shared_na_cpl s"
  using assms by (induction rule: rtranclp_induct) (simp_all add: host_step_statics)

lemma host_steps_kept:
  assumes "host_step\<^sup>*\<^sup>* s s'" and "kept s a x"
  shows "kept s' a x"
  using assms by (induction rule: rtranclp_induct) (simp_all add: host_step_kept)

lemma host_steps_pool:
  assumes "host_step\<^sup>*\<^sup>* s s'" and "constant_pool na s"
  shows "constant_pool na s' \<and> pool_handles s' = pool_handles s
       \<and> pool_nodes s' = pool_nodes s"
proof -
  have st: "pool_handles s' = pool_handles s" "vctrs_shared_na_cpl s' = vctrs_shared_na_cpl s"
    using host_steps_statics [OF assms(1)] by simp_all
  have sn: "shared_node s' g t cells" if "shared_node s g t cells" for g t cells
    using that host_steps_kept [OF assms(1)] unfolding shared_node_kept by blast
  have hp: "heap s' a = heap s a" if "shared_node s (Some a) t cells" for a t cells
    using that host_steps_kept [OF assms(1)] unfolding shared_node_kept kept_def by auto
  from st have gl: "vctrs_shared_empty_lgl s' = vctrs_shared_empty_lgl s"
      "vctrs_shared_empty_int s' = vctrs_shared_empty_int s"
      "vctrs_shared_empty_dbl s' = vctrs_shared_empty_dbl s"
      "vctrs_shared_empty_cpl s' = vctrs_shared_empty_cpl s"
      "vctrs_shared_empty_chr s' = vctrs_shared_empty_chr s"
      "vctrs_shared_empty_raw s' = vctrs_shared_empty_raw s"
      "vctrs_shared_empty_list s' = vctrs_shared_empty_list s"
      "vctrs_shared_true s' = vctrs_shared_true s"
      "vctrs_shared_false s' = vctrs_shared_false s"
    by (simp_all add: pool_handles_def)
  have cp: "constant_pool na s'"
    using assms(2) st unfolding constant_pool_def gl by (simp add: sn)
  have mem: "\<exists>t cells. shared_node s g t cells" if "g \<in> set (pool_handles s)" for g
    using that assms(2) unfolding constant_pool_def pool_handles_def by auto
  have "(case g of None \<Rightarrow> None | Some a \<Rightarrow> heap s' a)
       = (case g of None \<Rightarrow> None | Some a \<Rightarrow> heap s a)"
    if "g \<in> set (pool_handles s)" for g
    using mem [OF that] hp by (cases g) auto
  then have "pool_nodes s' = pool_nodes s"
    unfolding pool_nodes_def st by (intro map_cong refl)
  with cp st show ?thesis by simp
qed

subsection \<open>The initialiser and what comes after it\<close>

lemma init_pool: "constant_pool na (vctrs_init_types gc na ns s)"
  unfolding constant_pool_def
proof (intro conjI)
  show "distinct (pool_handles (vctrs_init_types gc na ns s))"
    by (simp add: init_handles distinct_map)
qed (simp_all add: shared_node_def vctrs_init_types_def Let_def split_beta proj)

lemma rec_host_steps:
  assumes "\<And>x h. host_step\<^sup>*\<^sup>* h (snd (vec_proxy x h))"
    and "vec_is_vector_rec depth vec_proxy x dispatch s = Some (out, calls, s')"
  shows "host_step\<^sup>*\<^sup>* s s'"
proof (cases depth)
  case 0
  with assms(2) show ?thesis by simp
next
  case (Suc n)
  show ?thesis
  proof (cases "vec_typeof_impl x dispatch = vctrs_type_s3")
    case False
    with assms(2) Suc show ?thesis by (simp add: rec_not_s3 del: vec_is_vector_rec.simps)
  next
    case True
    show ?thesis
    proof (cases n)
      case 0
      with assms(2) Suc True show ?thesis by (simp split: prod.splits)
    next
      case (Suc m)
      with assms(2) \<open>depth = Suc n\<close> True have "s' = snd (vec_proxy x s)"
        by (simp add: rec_s3 del: vec_is_vector_rec.simps)
      with assms(1) show ?thesis by simp
    qed
  qed
qed

text \<open>
  Claim C9. After \<open>vctrs_init_types\<close> the pool holds a node of length zero for each of
  logical, integer, double, complex, character, raw and list, two logical nodes of
  length one holding true and false, and a complex value whose two parts are the
  host's missing double; each node is marked not mutable and is on the list of
  preserved nodes. Every later step of the host, and every later run of the vector
  predicate whose proxy only takes such steps, leaves the handles and the nodes as
  they are.
\<close>

theorem constant_pool_lifecycle:
  "constant_pool na (vctrs_init_types gc na ns s)
   \<and> (host_step\<^sup>*\<^sup>* (vctrs_init_types gc na ns s) s' \<longrightarrow>
        constant_pool na s'
        \<and> pool_handles s' = pool_handles (vctrs_init_types gc na ns s)
        \<and> pool_nodes s' = pool_nodes (vctrs_init_types gc na ns s))
   \<and> ((\<forall>x h. host_step\<^sup>*\<^sup>* h (snd (vec_proxy x h)))
        \<and> host_step\<^sup>*\<^sup>* (vctrs_init_types gc na ns s) s'
        \<and> vec_is_vector_rec depth vec_proxy x dispatch s' = Some (out, calls, s'') \<longrightarrow>
        constant_pool na s''
        \<and> pool_handles s'' = pool_handles (vctrs_init_types gc na ns s)
        \<and> pool_nodes s'' = pool_nodes (vctrs_init_types gc na ns s))"
proof (intro conjI impI)
  show "constant_pool na (vctrs_init_types gc na ns s)" by (rule init_pool)
next
  assume run: "host_step\<^sup>*\<^sup>* (vctrs_init_types gc na ns s) s'"
  from host_steps_pool [OF run init_pool]
  show "constant_pool na s'"
    and "pool_handles s' = pool_handles (vctrs_init_types gc na ns s)"
    and "pool_nodes s' = pool_nodes (vctrs_init_types gc na ns s)"
    by simp_all
next
  assume h: "(\<forall>x h. host_step\<^sup>*\<^sup>* h (snd (vec_proxy x h)))
        \<and> host_step\<^sup>*\<^sup>* (vctrs_init_types gc na ns s) s'
        \<and> vec_is_vector_rec depth vec_proxy x dispatch s' = Some (out, calls, s'')"
  then have "host_step\<^sup>*\<^sup>* s' s''"
    using rec_host_steps [of vec_proxy depth x dispatch s'] by blast
  with h have run: "host_step\<^sup>*\<^sup>* (vctrs_init_types gc na ns s) s''"
    by (blast intro: rtranclp_trans)
  from host_steps_pool [OF run init_pool]
  show "constant_pool na s''"
    and "pool_handles s'' = pool_handles (vctrs_init_types gc na ns s)"
    and "pool_nodes s'' = pool_nodes (vctrs_init_types gc na ns s)"
    by simp_all
qed

lemma init_nodes:
  "pool_nodes (vctrs_init_types gc na ns s) =
    [Some \<lparr>sxptype = LGLSXP, obj = False, not_mutable = True, klass = [], payload = []\<rparr>,
     Some \<lparr>sxptype = INTSXP, obj = False, not_mutable = True, klass = [], payload = []\<rparr>,
     Some \<lparr>sxptype = REALSXP, obj = False, not_mutable = True, klass = [], payload = []\<rparr>,
     Some \<lparr>sxptype = CPLXSXP, obj = False, not_mutable = True, klass = [], payload = []\<rparr>,
     Some \<lparr>sxptype = STRSXP, obj = False, not_mutable = True, klass = [], payload = []\<rparr>,
     Some \<lparr>sxptype = RAWSXP, obj = False, not_mutable = True, klass = [], payload = []\<rparr>,
     Some \<lparr>sxptype = VECSXP, obj = False, not_mutable = True, klass = [], payload = []\<rparr>,
     Some \<lparr>sxptype = LGLSXP, obj = False, not_mutable = True, klass = [],
            payload = [Lgl 1]\<rparr>,
     Some \<lparr>sxptype = LGLSXP, obj = False, not_mutable = True, klass = [],
            payload = [Lgl 0]\<rparr>]"
  unfolding pool_nodes_def init_handles
  by (simp add: vctrs_init_types_def Let_def split_beta proj)

text \<open>
  A run from the empty process, in which the collector frees whatever it may at every
  allocation. After the initialiser the host allocates an integer vector and collects
  again; separately, the predicate runs on a classed value with a proxy that
  allocates. The pool is intact in both final states, with its nine nodes as claimed.
\<close>

theorem constant_pool_lifecycle_witness:
  "constant_pool ''NA''
      (vctrs_init_types (\<lambda>k a. True) ''NA'' (\<lambda>name. 0) (process_start ''0''))
   \<and> constant_pool ''NA''
      (collect (\<lambda>a. True) (snd (Rf_allocVector (\<lambda>a. True) INTSXP 3
        (vctrs_init_types (\<lambda>k a. True) ''NA'' (\<lambda>name. 0) (process_start ''0'')))))
   \<and> pool_handles
      (collect (\<lambda>a. True) (snd (Rf_allocVector (\<lambda>a. True) INTSXP 3
        (vctrs_init_types (\<lambda>k a. True) ''NA'' (\<lambda>name. 0) (process_start ''0'')))))
      = [Some 0, Some 1, Some 2, Some 3, Some 4, Some 5, Some 6, Some 7, Some 8]
   \<and> pool_nodes
      (collect (\<lambda>a. True) (snd (Rf_allocVector (\<lambda>a. True) INTSXP 3
        (vctrs_init_types (\<lambda>k a. True) ''NA'' (\<lambda>name. 0) (process_start ''0'')))))
      = [Some \<lparr>sxptype = LGLSXP, obj = False, not_mutable = True, klass = [], payload = []\<rparr>,
         Some \<lparr>sxptype = INTSXP, obj = False, not_mutable = True, klass = [], payload = []\<rparr>,
         Some \<lparr>sxptype = REALSXP, obj = False, not_mutable = True, klass = [], payload = []\<rparr>,
         Some \<lparr>sxptype = CPLXSXP, obj = False, not_mutable = True, klass = [], payload = []\<rparr>,
         Some \<lparr>sxptype = STRSXP, obj = False, not_mutable = True, klass = [], payload = []\<rparr>,
         Some \<lparr>sxptype = RAWSXP, obj = False, not_mutable = True, klass = [], payload = []\<rparr>,
         Some \<lparr>sxptype = VECSXP, obj = False, not_mutable = True, klass = [], payload = []\<rparr>,
         Some \<lparr>sxptype = LGLSXP, obj = False, not_mutable = True, klass = [],
                payload = [Lgl 1]\<rparr>,
         Some \<lparr>sxptype = LGLSXP, obj = False, not_mutable = True, klass = [],
                payload = [Lgl 0]\<rparr>]
   \<and> vctrs_shared_na_cpl
      (collect (\<lambda>a. True) (snd (Rf_allocVector (\<lambda>a. True) INTSXP 3
        (vctrs_init_types (\<lambda>k a. True) ''NA'' (\<lambda>name. 0) (process_start ''0'')))))
      = \<lparr>cplx_r = ''NA'', cplx_i = ''NA''\<rparr>
   \<and> vec_is_vector_rec 2 (\<lambda>x h. (x, snd (Rf_allocVector (\<lambda>a. True) INTSXP 1 h)))
        \<lparr>sxptype = INTSXP, obj = True, not_mutable = False, klass = [''factor''],
          payload = []\<rparr> True
        (vctrs_init_types (\<lambda>k a. True) ''NA'' (\<lambda>name. 0) (process_start ''0''))
      = Some (True, [\<lparr>sxptype = INTSXP, obj = True, not_mutable = False,
          klass = [''factor''], payload = []\<rparr>],
          snd (Rf_allocVector (\<lambda>a. True) INTSXP 1
            (vctrs_init_types (\<lambda>k a. True) ''NA'' (\<lambda>name. 0) (process_start ''0''))))
   \<and> constant_pool ''NA''
      (snd (Rf_allocVector (\<lambda>a. True) INTSXP 1
        (vctrs_init_types (\<lambda>k a. True) ''NA'' (\<lambda>name. 0) (process_start ''0''))))"
proof -
  let ?p = "vctrs_init_types (\<lambda>k a. True) ''NA'' (\<lambda>name. 0) (process_start ''0'')"
  let ?q = "snd (Rf_allocVector (\<lambda>a. True) INTSXP 3 ?p)"
  let ?r = "collect (\<lambda>a. True) ?q"
  let ?proxy = "\<lambda>(x::SEXPREC) (h::string process).
      (x, snd (Rf_allocVector (\<lambda>a. True) INTSXP 1 h))"
  let ?v = "\<lparr>sxptype = INTSXP, obj = True, not_mutable = False, klass = [''factor''],
          payload = []\<rparr>"
  have "host_step ?p ?q" by (rule host_step.allocate)
  moreover have "host_step ?q ?r" by (rule host_step.reclaim)
  ultimately have run: "host_step\<^sup>*\<^sup>* ?p ?r" by simp
  have proxy: "\<forall>x h. host_step\<^sup>*\<^sup>* h (snd (?proxy x h))"
    by (simp add: host_step.allocate r_into_rtranclp)
  have here: "host_step\<^sup>*\<^sup>* ?p ?p" by simp
  have ans: "vec_is_vector_rec 2 ?proxy ?v True ?p
      = Some (True, [?v], snd (Rf_allocVector (\<lambda>a. True) INTSXP 1 ?p))"
    by (simp add: numeral_2_eq_2 vec_typeof_impl_def TYPEOF_def OBJECT_def)
  have hs: "pool_handles ?p
      = [Some 0, Some 1, Some 2, Some 3, Some 4, Some 5, Some 6, Some 7, Some 8]"
    by (simp add: init_handles process_start_def)
  from constant_pool_lifecycle [of "''NA''" "\<lambda>k a. True" "\<lambda>name. 0" "process_start ''0''"
      ?r ?proxy 2 ?v True True "[?v]" "snd (Rf_allocVector (\<lambda>a. True) INTSXP 1 ?p)"]
    constant_pool_lifecycle [of "''NA''" "\<lambda>k a. True" "\<lambda>name. 0" "process_start ''0''"
      ?p ?proxy 2 ?v True True "[?v]" "snd (Rf_allocVector (\<lambda>a. True) INTSXP 1 ?p)"]
    run proxy here ans hs
  show ?thesis by (simp add: init_nodes constant_pool_def)
qed

end
